theory Spec2Isabelle
  imports Main
begin

section \<open>The submission handlers of \<open>src/api/app/apps.js\<close>\<close>

text \<open>
  The two handlers \<open>app.post\<close> (create) and \<open>app.put\<close> (update) are promise chains over
  collaborators that live outside the file: the file system, the review tool, the manifest
  parser, the checksum engine, the Mongoose model \<open>db.Package\<close>, \<open>packages.updateInfo\<close>,
  \<open>upload.uploadPackage\<close> and the helpers. The collaborators are parameters of the model
  (the record \<open>env\<close>); a promise is the list of collaborator calls made so far together
  with the value it settles to, and a handler returns the whole trace, the response it sent
  and the registry store it leaves behind.
\<close>

subsection \<open>Message constants (lines 26-32)\<close>

definition NEEDS_MANUAL_REVIEW :: string where
  "NEEDS_MANUAL_REVIEW = ''This app needs to be reviewed manually''"

definition MALFORMED_MANIFEST :: string where
  "MALFORMED_MANIFEST = ''Your package manifest is malformed''"

definition DUPLICATE_PACKAGE :: string where
  "DUPLICATE_PACKAGE = ''A package with the same name already exists''"

definition PERMISSION_DENIED :: string where
  "PERMISSION_DENIED = ''You do not have permission to update this app''"

definition BAD_FILE :: string where
  "BAD_FILE = ''The file must be a click or snap package''"

definition WRONG_PACKAGE :: string where
  "WRONG_PACKAGE = ''The uploaded package does not match the name of the package you are editing''"

subsection \<open>Data\<close>

text \<open>
  A value that is thrown or that a promise rejects with: one of the handler's own strings
  (\<open>Str\<close>), the \<open>TypeError\<close> of a property access on \<open>null\<close>/\<open>undefined\<close>, or any other
  value a collaborator rejects with (\<open>Rejection\<close>, tagged for identification only).
\<close>

datatype err = Str string | TypeError | Rejection string

text \<open>\<open>req.file\<close> as multer fills it in.\<close>

record upload_file =
  originalname :: string
  path :: string

text \<open>
  The request: \<open>req.file\<close> (absent when nothing was uploaded), \<open>req.body\<close> (the form
  fields), \<open>req.user._id\<close> and \<open>req.params.id\<close>.
\<close>

record request =
  req_file :: "upload_file option"
  body :: "(string \<times> string) list option"
  user_id :: string
  params_id :: string

text \<open>The parser's result \<open>parseData\<close>; a field that is \<open>undefined\<close> is \<open>None\<close>.\<close>

record manifest =
  name :: "string option"
  version :: "string option"
  architecture :: "string option"
  icon :: "string option"

text \<open>
  A \<open>db.Package\<close> document, with the three fields this file reads or writes and the
  remaining ones as an association list.
\<close>

record package =
  pkg_id :: "string option"
  maintainer :: "string option"
  download_sha512 :: "string option"
  info :: "(string \<times> string) list"

text \<open>
  The collaborators. Each is a function of its arguments (every one is called at most once
  per request). \<open>checksum_first\<close> says which of two rejections reaches \<open>Promise.all\<close>
  first when both the checksum and the parse chain reject. The registry store is of an
  arbitrary type \<open>'st\<close>: \<open>findOne\<close> reads it and \<open>save\<close> is the only call of the two
  handlers that changes it.
\<close>

record 'st env =
  isAdminUser :: "request \<Rightarrow> bool"
  isAdminOrTrustedUser :: "request \<Rightarrow> bool"
  renameAsync :: "string \<Rightarrow> string \<Rightarrow> err + unit"
  reviewPackage :: "string \<Rightarrow> err + bool"
  parse :: "string \<Rightarrow> err + manifest"
  checksum :: "string \<Rightarrow> err + string"
  checksum_first :: bool
  findOne :: "'st \<Rightarrow> string \<Rightarrow> err + package option"
  new_Package :: package
  updateInfo :: "package \<Rightarrow> manifest option \<Rightarrow> (string \<times> string) list option
                   \<Rightarrow> upload_file option \<Rightarrow> err + package"
  uploadPackage :: "package \<Rightarrow> string \<Rightarrow> string option \<Rightarrow> err + package"
  save :: "'st \<Rightarrow> package \<Rightarrow> err + 'st \<times> package"

text \<open>
  The calls a handler makes, in the order it makes them. \<open>Unlink\<close> is the call
  \<open>fs.unlink(path)\<close>, whose result the handlers do not wait for.
\<close>

datatype event =
    Unlink string
  | Rename string string
  | Review string
  | Parse string
  | Checksum string
  | FindOne string
  | UpdateInfo
  | Upload package string "string option"
  | Save package
  | LogError string

text \<open>
  \<open>helpers.success(res, data)\<close> and \<open>helpers.error(res, message, code)\<close>; the code is
  \<open>None\<close> where the call passes none and the helper's default applies.
\<close>

datatype response = Success package | Error string "nat option"

record 'st outcome =
  events :: "event list"
  response :: response
  store :: 'st

subsection \<open>Promises\<close>

type_synonym 'a promise = "event list \<times> (err + 'a)"

definition resolve :: "'a \<Rightarrow> 'a promise" where
  "resolve x = ([], Inr x)"

definition reject :: "err \<Rightarrow> 'a promise" where
  "reject e = ([], Inl e)"

definition call :: "event \<Rightarrow> err + 'a \<Rightarrow> 'a promise" where
  "call ev r = ([ev], r)"

text \<open>\<open>p.then(f)\<close>: a rejection skips \<open>f\<close>.\<close>

definition then_p :: "'a promise \<Rightarrow> ('a \<Rightarrow> 'b promise) \<Rightarrow> 'b promise" where
  "then_p p f =
     (case snd p of
        Inl e \<Rightarrow> (fst p, Inl e)
      | Inr x \<Rightarrow> (fst p @ fst (f x), snd (f x)))"

subsection \<open>JavaScript primitives\<close>

text \<open>\<open>String.prototype.endsWith\<close>.\<close>

definition endsWith :: "string \<Rightarrow> string \<Rightarrow> bool" where
  "endsWith s t \<longleftrightarrow> length t \<le> length s \<and> drop (length s - length t) s = t"

text \<open>Truthiness of a string-valued field: \<open>undefined\<close> and the empty string are falsy.\<close>

definition truthy :: "string option \<Rightarrow> bool" where
  "truthy v = (case v of None \<Rightarrow> False | Some s \<Rightarrow> s \<noteq> [])"

definition str_of :: "string option \<Rightarrow> string" where
  "str_of v = (case v of None \<Rightarrow> [] | Some s \<Rightarrow> s)"

subsection \<open>\<open>fileName\<close> and \<open>checkPackage\<close> (lines 259-294)\<close>

text \<open>Both read \<open>req.file\<close>, which is present at every call site; it is passed as \<open>f\<close>.\<close>

definition fileName :: "upload_file \<Rightarrow> string" where
  "fileName f =
     (if endsWith (originalname f) ''.click'' then path f @ ''.click''
      else path f @ ''.snap'')"

definition bad_extension :: "upload_file \<Rightarrow> bool" where
  "bad_extension f \<longleftrightarrow>
     \<not> endsWith (originalname f) ''.click'' \<and> \<not> endsWith (originalname f) ''.snap''"

definition checkPackage :: "'st env \<Rightarrow> request \<Rightarrow> upload_file \<Rightarrow> unit promise" where
  "checkPackage env req f =
     (if bad_extension f then ([Unlink (path f)], Inl (Str BAD_FILE))
      else
        then_p
          (then_p (call (Rename (path f) (fileName f)) (renameAsync env (path f) (fileName f)))
             (\<lambda>_. if isAdminOrTrustedUser env req then resolve False
                  else call (Review (fileName f)) (reviewPackage env (fileName f))))
          (\<lambda>needsManualReview.
             if needsManualReview then reject (Str NEEDS_MANUAL_REVIEW) else resolve ()))"

subsection \<open>\<open>updateAndUpload\<close> (lines 296-319)\<close>

definition malformed :: "manifest \<Rightarrow> bool" where
  "malformed parseData \<longleftrightarrow>
     \<not> truthy (name parseData) \<or> \<not> truthy (version parseData)
       \<or> \<not> truthy (architecture parseData)"

text \<open>
  \<open>results[0]\<close> is the package document, \<open>null\<close> when the update handler found none;
  the assignment to \<open>pkg.download_sha512\<close> then raises.
\<close>

definition updateAndUpload ::
  "'st env \<Rightarrow> package option \<times> manifest \<times> string \<times> request \<Rightarrow> package promise" where
  "updateAndUpload env results =
     (case results of (pkgo, parseData, digest, req) \<Rightarrow>
        (case pkgo of
           None \<Rightarrow> reject TypeError
         | Some pkg0 \<Rightarrow>
             (let pkg = pkg0\<lparr>download_sha512 := Some digest\<rparr> in
              if malformed parseData then reject (Str MALFORMED_MANIFEST)
              else if truthy (pkg_id pkg) \<and> name parseData \<noteq> pkg_id pkg
                then reject (Str WRONG_PACKAGE)
              else
                then_p
                  (call UpdateInfo (updateInfo env pkg (Some parseData) (body req) (req_file req)))
                  (\<lambda>pkg'.
                     (case req_file req of
                        None \<Rightarrow> reject TypeError
                      | Some f \<Rightarrow>
                          call (Upload pkg' (fileName f) (icon parseData))
                            (uploadPackage env pkg' (fileName f) (icon parseData)))))))"

subsection \<open>\<open>app.post\<close> (lines 321-373)\<close>

text \<open>\<open>if (req.body && !req.body.maintainer) req.body.maintainer = req.user._id\<close>.\<close>

definition set_field :: "string \<Rightarrow> string \<Rightarrow> (string \<times> string) list \<Rightarrow> (string \<times> string) list" where
  "set_field k v b = (k, v) # filter (\<lambda>kv. fst kv \<noteq> k) b"

definition default_maintainer :: "request \<Rightarrow> request" where
  "default_maintainer req =
     (case body req of
        None \<Rightarrow> req
      | Some b \<Rightarrow>
          if \<not> truthy (map_of b ''maintainer'')
          then req\<lparr>body := Some (set_field ''maintainer'' (user_id req) b)\<rparr>
          else req)"

text \<open>
  \<open>existingPromise\<close>: chained on the parse promise, so a parse rejection passes through
  it; otherwise the manifest is validated and the registry is asked for a record whose
  \<open>id\<close> is the manifest's name.
\<close>

definition existingPromise :: "'st env \<Rightarrow> 'st \<Rightarrow> err + manifest \<Rightarrow> unit promise" where
  "existingPromise env st parsed =
     (case parsed of
        Inl e \<Rightarrow> reject e
      | Inr parseData \<Rightarrow>
          if malformed parseData then reject (Str MALFORMED_MANIFEST)
          else
            then_p
              (call (FindOne (str_of (name parseData)))
                 (findOne env st (str_of (name parseData))))
              (\<lambda>existing.
                 (case existing of
                    Some _ \<Rightarrow> reject (Str DUPLICATE_PACKAGE)
                  | None \<Rightarrow> resolve ())))"

text \<open>
  The \<open>Promise.all\<close> of the create handler. \<open>parse\<close> and \<open>checksum\<close> are both called
  before anything settles; the registry lookup follows the parse. The result is rejected
  with the rejection that comes first: the checksum's when the parse chain does not reject
  or rejects later, the parse chain's otherwise. The trace lists the lookup even when the
  checksum has already rejected, since \<open>Promise.all\<close> does not cancel it.
\<close>

definition post_all ::
  "'st env \<Rightarrow> 'st \<Rightarrow> request \<Rightarrow> upload_file
     \<Rightarrow> (package option \<times> manifest \<times> string \<times> request) promise" where
  "post_all env st req f =
     (let parsed = parse env (fileName f);
          existing = existingPromise env st parsed;
          digest = checksum env (fileName f)
      in ([Parse (fileName f), Checksum (fileName f)] @ fst existing,
          (case snd existing of
             Inl ex \<Rightarrow>
               (case digest of
                  Inl ec \<Rightarrow> Inl (if checksum_first env then ec else ex)
                | Inr _ \<Rightarrow> Inl ex)
           | Inr _ \<Rightarrow>
               (case digest of
                  Inl ec \<Rightarrow> Inl ec
                | Inr d \<Rightarrow>
                    (case parsed of
                       Inl ep \<Rightarrow> Inl ep
                     | Inr parseData \<Rightarrow> Inr (Some (new_Package env), parseData, d, req))))))"

definition post_catch :: "'st \<Rightarrow> event list \<Rightarrow> err \<Rightarrow> 'st outcome" where
  "post_catch st es e =
     (if e = Str NEEDS_MANUAL_REVIEW \<or> e = Str MALFORMED_MANIFEST \<or> e = Str DUPLICATE_PACKAGE
      then \<lparr>events = es,
            response = Error (case e of Str s \<Rightarrow> s | _ \<Rightarrow> []) (Some 400),
            store = st\<rparr>
      else \<lparr>events = es @ [LogError ''Error parsing new package:''],
            response = Error ''There was an error creating your app, please try again later'' None,
            store = st\<rparr>)"

definition settle ::
  "('st \<Rightarrow> event list \<Rightarrow> err \<Rightarrow> 'st outcome) \<Rightarrow> 'st \<Rightarrow> ('st \<times> package) promise \<Rightarrow> 'st outcome" where
  "settle catch st p =
     (case snd p of
        Inr (st', pkg) \<Rightarrow> \<lparr>events = fst p, response = Success pkg, store = st'\<rparr>
      | Inl e \<Rightarrow> catch st (fst p) e)"

definition post_apps :: "'st env \<Rightarrow> 'st \<Rightarrow> request \<Rightarrow> 'st outcome" where
  "post_apps env st req =
     (case req_file req of
        None \<Rightarrow>
          \<lparr>events = [], response = Error ''No file upload specified'' None, store = st\<rparr>
      | Some f \<Rightarrow>
          if bad_extension f
          then \<lparr>events = [Unlink (path f)], response = Error BAD_FILE None, store = st\<rparr>
          else
            settle post_catch st
              (then_p
                 (then_p
                    (then_p (checkPackage env (default_maintainer req) f)
                       (\<lambda>_. post_all env st (default_maintainer req) f))
                    (updateAndUpload env))
                 (\<lambda>pkg. call (Save pkg) (save env st pkg))))"

subsection \<open>\<open>app.put\<close> (lines 375-415)\<close>

text \<open>
  \<open>helpers.isAdminUser(req) || req.user._id == pkg.maintainer\<close>: for an administrator the
  right operand is not evaluated; for anyone else it reads \<open>pkg.maintainer\<close>, which raises
  when the lookup found no record.
\<close>

definition authorised :: "'st env \<Rightarrow> request \<Rightarrow> package option \<Rightarrow> err + bool" where
  "authorised env req pkgo =
     (if isAdminUser env req then Inr True
      else (case pkgo of
              None \<Rightarrow> Inl TypeError
            | Some pkg \<Rightarrow> Inr (maintainer pkg = Some (user_id req))))"

text \<open>The \<open>Promise.all\<close> of the update handler: the record, the parse, the checksum.\<close>

definition put_all ::
  "'st env \<Rightarrow> package option \<Rightarrow> request \<Rightarrow> upload_file
     \<Rightarrow> (package option \<times> manifest \<times> string \<times> request) promise" where
  "put_all env pkgo req f =
     ([Parse (fileName f), Checksum (fileName f)],
      (case parse env (fileName f) of
         Inl ep \<Rightarrow>
           (case checksum env (fileName f) of
              Inl ec \<Rightarrow> Inl (if checksum_first env then ec else ep)
            | Inr _ \<Rightarrow> Inl ep)
       | Inr parseData \<Rightarrow>
           (case checksum env (fileName f) of
              Inl ec \<Rightarrow> Inl ec
            | Inr d \<Rightarrow> Inr (pkgo, parseData, d, req))))"

definition put_catch :: "'st \<Rightarrow> event list \<Rightarrow> err \<Rightarrow> 'st outcome" where
  "put_catch st es e =
     (if e = Str PERMISSION_DENIED \<or> e = Str BAD_FILE \<or> e = Str NEEDS_MANUAL_REVIEW
         \<or> e = Str MALFORMED_MANIFEST \<or> e = Str WRONG_PACKAGE
      then \<lparr>events = es,
            response = Error (case e of Str s \<Rightarrow> s | _ \<Rightarrow> []) (Some 400),
            store = st\<rparr>
      else \<lparr>events = es @ [LogError ''Error updating package:''],
            response = Error ''There was an error updating your app, please try again later'' None,
            store = st\<rparr>)"

text \<open>
  The branch without a file on a missing record: \<open>packages.updateInfo(null, \<dots>)\<close> or, at
  the latest, \<open>pkg.save()\<close> dereferences \<open>null\<close>.
\<close>

definition put_body :: "'st env \<Rightarrow> 'st \<Rightarrow> request \<Rightarrow> package option \<Rightarrow> ('st \<times> package) promise" where
  "put_body env st req pkgo =
     (case authorised env req pkgo of
        Inl e \<Rightarrow> reject e
      | Inr False \<Rightarrow> reject (Str PERMISSION_DENIED)
      | Inr True \<Rightarrow>
          (case req_file req of
             Some f \<Rightarrow>
               then_p
                 (then_p
                    (then_p (checkPackage env req f) (\<lambda>_. put_all env pkgo req f))
                    (updateAndUpload env))
                 (\<lambda>pkg. call (Save pkg) (save env st pkg))
           | None \<Rightarrow>
               (case pkgo of
                  None \<Rightarrow> ([UpdateInfo], Inl TypeError)
                | Some pkg \<Rightarrow>
                    then_p (call UpdateInfo (updateInfo env pkg None (body req) None))
                      (\<lambda>pkg'. call (Save pkg') (save env st pkg')))))"

definition put_apps :: "'st env \<Rightarrow> 'st \<Rightarrow> request \<Rightarrow> 'st outcome" where
  "put_apps env st req =
     settle put_catch st
       (then_p (call (FindOne (params_id req)) (findOne env st (params_id req)))
          (put_body env st req))"

subsection \<open>Two create requests at once\<close>

text \<open>
  A handler gives up control at every collaborator call it waits for, so a second request
  can run between the registry lookup of a first one (line 344) and its save (line 360).
  \<open>concurrent_creates\<close> is that schedule for two create requests \<open>A\<close> and \<open>B\<close>: both
  lookups are answered from the store the two requests found, then \<open>A\<close> saves, then
  \<open>B\<close> saves into the store \<open>A\<close> left. It returns both outcomes; the store of the
  second is the final one.
\<close>

definition lookup_before :: "'st env \<Rightarrow> 'st \<Rightarrow> 'st env" where
  "lookup_before env st0 = env\<lparr>findOne := \<lambda>_. findOne env st0\<rparr>"

definition concurrent_creates ::
  "'st env \<Rightarrow> 'st \<Rightarrow> request \<Rightarrow> request \<Rightarrow> 'st outcome \<times> 'st outcome" where
  "concurrent_creates env st reqA reqB =
     (let a = post_apps env st reqA
      in (a, post_apps (lookup_before env st) (store a) reqB))"

subsection \<open>Observations on a trace\<close>

text \<open>The calls that write: to the remote artifact store and to the registry.\<close>

fun is_upload :: "event \<Rightarrow> bool" where
  "is_upload (Upload _ _ _) = True"
| "is_upload _ = False"

fun is_save :: "event \<Rightarrow> bool" where
  "is_save (Save _) = True"
| "is_save _ = False"

text \<open>
  Proof invariants. A trace is \<open>quiet\<close> when it holds no write at all. A promise of the
  saved record is \<open>staged\<close> when its trace has one of three shapes: no write and a
  rejection; a single upload, last, which failed; or a single upload that resolved, followed
  at once by the save of the record it resolved to.
\<close>

definition quiet :: "event list \<Rightarrow> bool" where
  "quiet es \<longleftrightarrow> (\<forall>e \<in> set es. \<not> is_upload e \<and> \<not> is_save e)"

definition staged :: "'st env \<Rightarrow> 'st \<Rightarrow> ('st \<times> package) promise \<Rightarrow> bool" where
  "staged env st p \<longleftrightarrow>
     (quiet (fst p) \<and> isl (snd p))
   \<or> (\<exists>es q fn ic. quiet es \<and> fst p = es @ [Upload q fn ic]
         \<and> isl (uploadPackage env q fn ic) \<and> isl (snd p))
   \<or> (\<exists>es q fn ic pkg. quiet es \<and> fst p = es @ [Upload q fn ic, Save pkg]
         \<and> uploadPackage env q fn ic = Inr pkg \<and> snd p = save env st pkg)"

subsection \<open>Sample collaborators\<close>

text \<open>
  A registry held as an association list with one record, \<open>foo\<close> of maintainer \<open>alice\<close>,
  and collaborators that all succeed: the parser reads a manifest for \<open>foo\<close> 1.0, the
  review tool asks for no manual review, \<open>root\<close> is the administrator and \<open>trusted\<close> the
  trusted uploader. They are the concrete inputs the properties below are instantiated at.
\<close>

definition foo_record :: package where
  "foo_record =
     \<lparr>pkg_id = Some ''foo'', maintainer = Some ''alice'',
      download_sha512 = Some ''00'', info = []\<rparr>"

definition demo_store :: "(string \<times> package) list" where
  "demo_store = [(''foo'', foo_record)]"

definition foo_manifest :: manifest where
  "foo_manifest =
     \<lparr>name = Some ''foo'', version = Some ''1.0'', architecture = Some ''armhf'',
      icon = None\<rparr>"

definition demo_env :: "((string \<times> package) list) env" where
  "demo_env =
     \<lparr>isAdminUser = (\<lambda>r. user_id r = ''root''),
      isAdminOrTrustedUser = (\<lambda>r. user_id r = ''root'' \<or> user_id r = ''trusted''),
      renameAsync = (\<lambda>_ _. Inr ()),
      reviewPackage = (\<lambda>_. Inr False),
      parse = (\<lambda>_. Inr foo_manifest),
      checksum = (\<lambda>_. Inr ''c0ffee''),
      checksum_first = False,
      findOne = (\<lambda>st n. Inr (map_of st n)),
      new_Package = \<lparr>pkg_id = None, maintainer = None, download_sha512 = None, info = []\<rparr>,
      updateInfo = (\<lambda>pkg m b f. Inr (case m of None \<Rightarrow> pkg | Some d \<Rightarrow> pkg\<lparr>pkg_id := name d\<rparr>)),
      uploadPackage = (\<lambda>pkg _ _. Inr pkg),
      save = (\<lambda>st pkg. Inr ((str_of (pkg_id pkg), pkg) # filter (\<lambda>kv. fst kv \<noteq> str_of (pkg_id pkg)) st, pkg))\<rparr>"

definition click_file :: upload_file where
  "click_file = \<lparr>originalname = ''foo.click'', path = ''/tmp/u1''\<rparr>"

definition zip_file :: upload_file where
  "zip_file = \<lparr>originalname = ''foo.zip'', path = ''/tmp/u2''\<rparr>"

definition demo_request :: "upload_file option \<Rightarrow> string \<Rightarrow> string \<Rightarrow> request" where
  "demo_request fo uid pid =
     \<lparr>req_file = fo, body = Some [], user_id = uid, params_id = pid\<rparr>"

text \<open>
  Two registries for a new document: one that inserts whatever it is given, and one with a
  uniqueness constraint on \<open>id\<close>, whose \<open>save\<close> rejects with the driver's own error when
  a record of that \<open>id\<close> is there. \<open>click_file_b\<close> is a second upload of the same package.
\<close>

definition insert_env :: "((string \<times> package) list) env" where
  "insert_env = demo_env\<lparr>save := \<lambda>st pkg. Inr ((str_of (pkg_id pkg), pkg) # st, pkg)\<rparr>"

definition unique_env :: "((string \<times> package) list) env" where
  "unique_env =
     demo_env\<lparr>save := \<lambda>st pkg.
       (case map_of st (str_of (pkg_id pkg)) of
          Some _ \<Rightarrow> Inl (Rejection ''E11000 duplicate key error'')
        | None \<Rightarrow> Inr ((str_of (pkg_id pkg), pkg) # st, pkg))\<rparr>"

definition click_file_b :: upload_file where
  "click_file_b = \<lparr>originalname = ''foo.click'', path = ''/tmp/u3''\<rparr>"

section \<open>Properties\<close>

lemmas message_defs =
  NEEDS_MANUAL_REVIEW_def MALFORMED_MANIFEST_def DUPLICATE_PACKAGE_def
  PERMISSION_DENIED_def BAD_FILE_def WRONG_PACKAGE_def

lemma then_p_simps [simp]:
  "then_p (es, Inl e) f = (es, Inl e)"
  "then_p (es, Inr x) f = (es @ fst (f x), snd (f x))"
  by (simp_all add: then_p_def)

lemmas promise_defs = resolve_def reject_def call_def

subsection \<open>The sample collaborators, evaluated\<close>

lemmas model_defs = post_apps_def put_apps_def put_body_def settle_def post_catch_def put_catch_def
  checkPackage_def post_all_def put_all_def existingPromise_def updateAndUpload_def authorised_def

lemma demo_files [simp]:
  "\<not> bad_extension click_file" "bad_extension zip_file"
  "fileName click_file = ''/tmp/u1.click''"
  "path click_file = ''/tmp/u1''" "path zip_file = ''/tmp/u2''"
  by (simp_all add: bad_extension_def fileName_def endsWith_def click_file_def zip_file_def)

lemma demo_files_b [simp]:
  "\<not> bad_extension click_file_b" "fileName click_file_b = ''/tmp/u3.click''"
  "path click_file_b = ''/tmp/u3''"
  by (simp_all add: bad_extension_def fileName_def endsWith_def click_file_b_def)

lemma demo_manifest [simp]:
  "\<not> malformed foo_manifest" "name foo_manifest = Some ''foo''" "icon foo_manifest = None"
  by (simp_all add: malformed_def truthy_def foo_manifest_def)

lemma demo_request_simps [simp]:
  "req_file (demo_request fo uid pid) = fo"
  "body (demo_request fo uid pid) = Some []"
  "user_id (demo_request fo uid pid) = uid"
  "params_id (demo_request fo uid pid) = pid"
  "default_maintainer (demo_request fo uid pid) = (demo_request fo uid pid)\<lparr>body := Some [(''maintainer'', uid)]\<rparr>"
  by (simp_all add: demo_request_def default_maintainer_def truthy_def set_field_def)

lemma demo_env_simps [simp]:
  "isAdminUser demo_env r \<longleftrightarrow> user_id r = ''root''"
  "isAdminOrTrustedUser demo_env r \<longleftrightarrow> user_id r = ''root'' \<or> user_id r = ''trusted''"
  "renameAsync demo_env a b = Inr ()"
  "reviewPackage demo_env a = Inr False"
  "parse demo_env a = Inr foo_manifest"
  "checksum demo_env a = Inr ''c0ffee''"
  "checksum_first demo_env = False"
  "findOne demo_env st n = Inr (map_of st n)"
  "uploadPackage demo_env pkg a ic = Inr pkg"
  by (simp_all add: demo_env_def)

lemma demo_env_more [simp]:
  "new_Package demo_env = \<lparr>pkg_id = None, maintainer = None, download_sha512 = None, info = []\<rparr>"
  "updateInfo demo_env pkg m b fo = Inr (case m of None \<Rightarrow> pkg | Some d \<Rightarrow> pkg\<lparr>pkg_id := name d\<rparr>)"
  "save demo_env st pkg = Inr ((str_of (pkg_id pkg), pkg) # filter (\<lambda>kv. fst kv \<noteq> str_of (pkg_id pkg)) st, pkg)"
  by (simp_all add: demo_env_def)

subsection \<open>Requests without a file\<close>

text \<open>
  C10: a create request that carries no file is answered at once with
  'No file upload specified'; the handler calls no collaborator (no review, parse,
  checksum, storage or registry operation) and leaves the registry store as it was.
\<close>

theorem post_without_file:
  "req_file req = None \<Longrightarrow>
     post_apps env st req =
       \<lparr>events = [], response = Error ''No file upload specified'' None, store = st\<rparr>"
  by (simp add: post_apps_def)

theorem post_without_file_witness:
  "req_file (demo_request None ''bob'' []) = None \<and>
   post_apps demo_env demo_store (demo_request None ''bob'' []) =
     \<lparr>events = [], response = Error ''No file upload specified'' None, store = demo_store\<rparr>"
  using post_without_file [of "demo_request None ''bob'' []" demo_env demo_store]
  by (simp add: demo_request_def)


subsection \<open>Traces without writes\<close>

lemma quiet_simps [simp]:
  "quiet []"
  "quiet (e # es) \<longleftrightarrow> \<not> is_upload e \<and> \<not> is_save e \<and> quiet es"
  "quiet (es @ es') \<longleftrightarrow> quiet es \<and> quiet es'"
  by (auto simp: quiet_def)

lemma quiet_then_p:
  "quiet (fst p) \<Longrightarrow> (\<And>x. quiet (fst (f x))) \<Longrightarrow> quiet (fst (then_p p f))"
  by (cases p) (auto simp: then_p_def split: sum.splits)

lemma quiet_checkPackage: "quiet (fst (checkPackage env req f))"
  by (simp add: checkPackage_def promise_defs then_p_def split: sum.splits)

lemma quiet_existingPromise: "quiet (fst (existingPromise env st parsed))"
  by (simp add: existingPromise_def promise_defs then_p_def split: sum.splits option.splits)

lemma quiet_post_all: "quiet (fst (post_all env st req f))"
  by (simp add: post_all_def Let_def quiet_existingPromise)

lemma quiet_put_all: "quiet (fst (put_all env pkgo req f))"
  by (simp add: put_all_def)

lemma updateAndUpload_cases:
  "(quiet (fst (updateAndUpload env r)) \<and> isl (snd (updateAndUpload env r)))
   \<or> (\<exists>q fn ic. updateAndUpload env r = ([UpdateInfo, Upload q fn ic], uploadPackage env q fn ic))"
  by (cases r) (simp add: updateAndUpload_def promise_defs then_p_def Let_def
       split: sum.splits option.splits)

lemma staged_pipeline:
  assumes "quiet (fst pre)"
  shows "staged env st
           (then_p (then_p pre (updateAndUpload env)) (\<lambda>pkg. call (Save pkg) (save env st pkg)))"
proof (cases "snd pre")
  case (Inl e)
  with assms show ?thesis
    by (simp add: staged_def then_p_def)
next
  case (Inr r)
  from updateAndUpload_cases [of env r] show ?thesis
  proof
    assume "quiet (fst (updateAndUpload env r)) \<and> isl (snd (updateAndUpload env r))"
    with assms Inr show ?thesis
      by (auto simp: staged_def then_p_def split: sum.splits)
  next
    assume "\<exists>q fn ic. updateAndUpload env r = ([UpdateInfo, Upload q fn ic], uploadPackage env q fn ic)"
    then obtain q fn ic
      where u: "updateAndUpload env r = ([UpdateInfo, Upload q fn ic], uploadPackage env q fn ic)"
      by blast
    show ?thesis
    proof (cases "uploadPackage env q fn ic")
      case (Inl e)
      have "quiet (fst pre @ [UpdateInfo])" using assms by simp
      moreover have "fst (then_p (then_p pre (updateAndUpload env)) (\<lambda>pkg. call (Save pkg) (save env st pkg)))
            = (fst pre @ [UpdateInfo]) @ [Upload q fn ic]"
        using Inr u Inl by (simp add: then_p_def)
      moreover have "isl (snd (then_p (then_p pre (updateAndUpload env)) (\<lambda>pkg. call (Save pkg) (save env st pkg))))"
        using Inr u Inl by (simp add: then_p_def)
      ultimately show ?thesis
        unfolding staged_def using Inl by (metis isl_def)
    next
      case (Inr pkg)
      have "quiet (fst pre @ [UpdateInfo])" using assms by simp
      moreover have "fst (then_p (then_p pre (updateAndUpload env)) (\<lambda>pkg. call (Save pkg) (save env st pkg)))
            = (fst pre @ [UpdateInfo]) @ [Upload q fn ic, Save pkg]"
        using \<open>snd pre = Inr r\<close> u Inr by (simp add: then_p_def call_def)
      moreover have "snd (then_p (then_p pre (updateAndUpload env)) (\<lambda>pkg. call (Save pkg) (save env st pkg)))
            = save env st pkg"
        using \<open>snd pre = Inr r\<close> u Inr by (simp add: then_p_def call_def)
      ultimately show ?thesis
        unfolding staged_def using Inr by blast
    qed
  qed
qed

lemma staged_prefix:
  "staged env st (es, r) \<Longrightarrow> quiet es0 \<Longrightarrow> staged env st (es0 @ es, r)"
  unfolding staged_def
  apply (elim disjE exE conjE)
    apply simp
   apply (rule disjI2, rule disjI1)
   apply (rule_tac x="es0 @ esa" in exI) 
   apply simp
  apply (rule disjI2, rule disjI2)
  apply (rule_tac x="es0 @ esa" in exI) 
  apply simp
  done

lemma save_position:
  "quiet es \<Longrightarrow> quiet rest \<Longrightarrow> is_upload u \<Longrightarrow> es @ [u, Save pkg] @ rest = xs @ Save pkg' # ys
     \<Longrightarrow> xs = es @ [u] \<and> pkg' = pkg"
proof (induction es arbitrary: xs)
  case Nil
  then show ?case
    by (cases xs; cases "tl xs"; cases u) (auto simp: Cons_eq_append_conv append_eq_Cons_conv)
next
  case (Cons a es)
  then show ?case
    by (cases xs) auto
qed


lemma post_catch_props:
  "store (post_catch st es e) = st"
  "\<exists>rest. events (post_catch st es e) = es @ rest \<and> quiet rest"
  by (simp_all add: post_catch_def)

lemma put_catch_props:
  "store (put_catch st es e) = st"
  "\<exists>rest. events (put_catch st es e) = es @ rest \<and> quiet rest"
  by (simp_all add: put_catch_def)

lemma quiet_mem: "quiet es \<Longrightarrow> Upload q fn ic \<notin> set es"
  by (auto simp: quiet_def)

lemma settle_staged:
  assumes st: "staged env st p"
    and store: "\<And>es e. store (catch st es e) = st"
    and evs: "\<And>es e. \<exists>rest. events (catch st es e) = es @ rest \<and> quiet rest"
  shows "(\<forall>xs pkg ys. events (settle catch st p) = xs @ Save pkg # ys \<longrightarrow>
            (\<exists>q fn ic. Upload q fn ic \<in> set xs \<and> uploadPackage env q fn ic = Inr pkg))
       \<and> (\<forall>q fn ic e. Upload q fn ic \<in> set (events (settle catch st p))
              \<and> uploadPackage env q fn ic = Inl e \<longrightarrow>
            (\<forall>ev \<in> set (events (settle catch st p)). \<not> is_save ev) \<and> store (settle catch st p) = st)"
proof -
  from st consider
      (a) "quiet (fst p)" "isl (snd p)"
    | (b) es q fn ic where "quiet es" "fst p = es @ [Upload q fn ic]"
        "isl (uploadPackage env q fn ic)" "isl (snd p)"
    | (c) es q fn ic pkg where "quiet es" "fst p = es @ [Upload q fn ic, Save pkg]"
        "uploadPackage env q fn ic = Inr pkg" "snd p = save env st pkg"
    unfolding staged_def by blast
  then show ?thesis
  proof cases
    case a
    then obtain e where e: "snd p = Inl e" by (auto simp: isl_def)
    obtain rest where r: "events (catch st (fst p) e) = fst p @ rest" "quiet rest"
      using evs by blast
    have q: "quiet (events (settle catch st p))"
      using a r e by (simp add: settle_def)
    have s: "store (settle catch st p) = st"
      using e store by (simp add: settle_def)
    show ?thesis
      using q s by (auto simp: quiet_def)
  next
    case b
    then obtain e where e: "snd p = Inl e" by (auto simp: isl_def)
    obtain rest where r: "events (catch st (fst p) e) = fst p @ rest" "quiet rest"
      using evs by blast
    have ev: "events (settle catch st p) = es @ Upload q fn ic # rest"
      using b r e by (simp add: settle_def)
    have s: "store (settle catch st p) = st"
      using e store by (simp add: settle_def)
    have nosave: "\<forall>ev \<in> set (events (settle catch st p)). \<not> is_save ev"
      using ev b(1) r(2) by (auto simp: quiet_def)
    have "\<And>xs pkg ys. events (settle catch st p) = xs @ Save pkg # ys \<Longrightarrow> False"
    proof -
      fix xs pkg ys assume "events (settle catch st p) = xs @ Save pkg # ys"
      then have "Save pkg \<in> set (events (settle catch st p))" by simp
      with nosave show False by force
    qed
    then show ?thesis using nosave s by blast
  next
    case c
    obtain rest where ev: "events (settle catch st p) = es @ [Upload q fn ic, Save pkg] @ rest"
      and qr: "quiet rest"
    proof (cases "save env st pkg")
      case (Inl e)
      obtain rest where r: "events (catch st (fst p) e) = fst p @ rest" "quiet rest"
        using evs by blast
      show ?thesis
        using that [of rest] r c Inl by (simp add: settle_def)
    next
      case (Inr sp)
      show ?thesis
        using that [of "[]"] c Inr by (simp add: settle_def split: prod.splits)
    qed
    have A: "\<And>xs pkg' ys. events (settle catch st p) = xs @ Save pkg' # ys \<Longrightarrow>
            (\<exists>q fn ic. Upload q fn ic \<in> set xs \<and> uploadPackage env q fn ic = Inr pkg')"
    proof -
      fix xs pkg' ys assume "events (settle catch st p) = xs @ Save pkg' # ys"
      with ev have "es @ [Upload q fn ic, Save pkg] @ rest = xs @ Save pkg' # ys" by simp
      from save_position [OF c(1) qr _ this] have "xs = es @ [Upload q fn ic]" "pkg' = pkg"
        by simp_all
      with c(3) show "\<exists>q fn ic. Upload q fn ic \<in> set xs \<and> uploadPackage env q fn ic = Inr pkg'"
        by auto
    qed
    have B: "\<And>q' fn' ic' e. Upload q' fn' ic' \<in> set (events (settle catch st p)) \<Longrightarrow>
               uploadPackage env q' fn' ic' = Inl e \<Longrightarrow> False"
    proof -
      fix q' fn' ic' e
      assume m: "Upload q' fn' ic' \<in> set (events (settle catch st p))"
        and f: "uploadPackage env q' fn' ic' = Inl e"
      from m ev quiet_mem [OF c(1)] quiet_mem [OF qr]
      have "Upload q' fn' ic' = Upload q fn ic" by auto
      with f c(3) show False by simp
    qed
    show ?thesis using A B by blast
  qed
qed

text \<open>
  C2: in a create or update submission with a file, a save of the record is always
  preceded in the trace by the upload, and that upload resolved to the record saved; when
  the upload that was made fails, the trace holds no save and the registry store is the one
  the handler started from.
\<close>

theorem upload_before_save:
  assumes "req_file req \<noteq> None"
    and "out = post_apps env st req \<or> out = put_apps env st req"
  shows "(\<forall>xs pkg ys. events out = xs @ Save pkg # ys \<longrightarrow>
            (\<exists>q fn ic. Upload q fn ic \<in> set xs \<and> uploadPackage env q fn ic = Inr pkg))
       \<and> (\<forall>q fn ic e. Upload q fn ic \<in> set (events out) \<and> uploadPackage env q fn ic = Inl e \<longrightarrow>
            (\<forall>ev \<in> set (events out). \<not> is_save ev) \<and> store out = st)"
proof -
  from assms(1) obtain f where f: "req_file req = Some f" by blast
  have post: "staged env st
      (if bad_extension f then ([Unlink (path f)], Inl (Str BAD_FILE))
       else then_p (then_p (then_p (checkPackage env (default_maintainer req) f)
                       (\<lambda>_. post_all env st (default_maintainer req) f))
                    (updateAndUpload env))
                 (\<lambda>pkg. call (Save pkg) (save env st pkg)))"
    by (simp add: staged_pipeline quiet_then_p quiet_checkPackage quiet_post_all)
       (simp add: staged_def)
  have put: "staged env st
      (then_p (call (FindOne (params_id req)) (findOne env st (params_id req)))
          (put_body env st req))"
  proof (cases "findOne env st (params_id req)")
    case (Inl e)
    then show ?thesis by (simp add: call_def staged_def)
  next
    case (Inr pkgo)
    have "staged env st (put_body env st req pkgo)"
      using f
      by (auto simp: put_body_def reject_def staged_pipeline quiet_then_p quiet_checkPackage
            quiet_put_all split: sum.splits bool.splits) (simp_all add: staged_def)
    then have "staged env st ([FindOne (params_id req)] @ fst (put_body env st req pkgo),
                 snd (put_body env st req pkgo))"
      by (intro staged_prefix) simp_all
    then show ?thesis using Inr by (simp add: call_def)
  qed
  from assms(2) show ?thesis
  proof
    assume o: "out = post_apps env st req"
    show ?thesis
    proof (cases "bad_extension f")
      case True
      then show ?thesis using o f by (simp add: post_apps_def Cons_eq_append_conv)
    next
      case False
      have eq: "out = settle post_catch st
           (then_p (then_p (then_p (checkPackage env (default_maintainer req) f)
                       (\<lambda>_. post_all env st (default_maintainer req) f))
                    (updateAndUpload env))
                 (\<lambda>pkg. call (Save pkg) (save env st pkg)))"
        using False o f by (simp add: post_apps_def)
      from post False have stg: "staged env st
           (then_p (then_p (then_p (checkPackage env (default_maintainer req) f)
                       (\<lambda>_. post_all env st (default_maintainer req) f))
                    (updateAndUpload env))
                 (\<lambda>pkg. call (Save pkg) (save env st pkg)))" by simp
      show ?thesis
        unfolding eq by (rule settle_staged [where catch = post_catch, OF stg]) (rule post_catch_props)+
    qed
  next
    assume o: "out = put_apps env st req"
    show ?thesis
      unfolding o put_apps_def by (rule settle_staged [where catch = put_catch, OF put]) (rule put_catch_props)+
  qed
qed

theorem upload_before_save_witness:
  "events (post_apps demo_env [] (demo_request (Some click_file) ''bob'' [])) =
     [Rename ''/tmp/u1'' ''/tmp/u1.click'', Review ''/tmp/u1.click'', Parse ''/tmp/u1.click'',
      Checksum ''/tmp/u1.click'', FindOne ''foo'', UpdateInfo,
      Upload \<lparr>pkg_id = Some ''foo'', maintainer = None, download_sha512 = Some ''c0ffee'', info = []\<rparr>
        ''/tmp/u1.click'' None]
     @ Save \<lparr>pkg_id = Some ''foo'', maintainer = None, download_sha512 = Some ''c0ffee'', info = []\<rparr> # []
   \<and> (\<exists>q fn ic.
         Upload q fn ic \<in> set
           [Rename ''/tmp/u1'' ''/tmp/u1.click'', Review ''/tmp/u1.click'', Parse ''/tmp/u1.click'',
            Checksum ''/tmp/u1.click'', FindOne ''foo'', UpdateInfo,
            Upload \<lparr>pkg_id = Some ''foo'', maintainer = None, download_sha512 = Some ''c0ffee'', info = []\<rparr>
              ''/tmp/u1.click'' None]
         \<and> uploadPackage demo_env q fn ic =
             Inr \<lparr>pkg_id = Some ''foo'', maintainer = None, download_sha512 = Some ''c0ffee'', info = []\<rparr>)
   \<and> Upload (foo_record\<lparr>download_sha512 := Some ''c0ffee''\<rparr>) ''/tmp/u1.click'' None
        \<in> set (events (put_apps (demo_env\<lparr>uploadPackage := \<lambda>_ _ _. Inl (Rejection ''smartfile'')\<rparr>)
                   demo_store (demo_request (Some click_file) ''alice'' ''foo'')))
   \<and> \<not> (\<exists>ev \<in> set (events (put_apps (demo_env\<lparr>uploadPackage := \<lambda>_ _ _. Inl (Rejection ''smartfile'')\<rparr>)
                   demo_store (demo_request (Some click_file) ''alice'' ''foo''))). is_save ev)
   \<and> store (put_apps (demo_env\<lparr>uploadPackage := \<lambda>_ _ _. Inl (Rejection ''smartfile'')\<rparr>)
                   demo_store (demo_request (Some click_file) ''alice'' ''foo'')) = demo_store"
proof -
  let ?R1 = "demo_request (Some click_file) ''bob'' []"
  let ?env2 = "demo_env\<lparr>uploadPackage := \<lambda>_ _ _. Inl (Rejection ''smartfile'')\<rparr>"
  let ?R2 = "demo_request (Some click_file) ''alice'' ''foo''"
  have e1: "events (post_apps demo_env [] ?R1) =
     [Rename ''/tmp/u1'' ''/tmp/u1.click'', Review ''/tmp/u1.click'', Parse ''/tmp/u1.click'',
      Checksum ''/tmp/u1.click'', FindOne ''foo'', UpdateInfo,
      Upload \<lparr>pkg_id = Some ''foo'', maintainer = None, download_sha512 = Some ''c0ffee'', info = []\<rparr>
        ''/tmp/u1.click'' None]
     @ Save \<lparr>pkg_id = Some ''foo'', maintainer = None, download_sha512 = Some ''c0ffee'', info = []\<rparr> # []"
    by (simp add: model_defs promise_defs str_of_def truthy_def)
  have e2: "Upload (foo_record\<lparr>download_sha512 := Some ''c0ffee''\<rparr>) ''/tmp/u1.click'' None
        \<in> set (events (put_apps ?env2 demo_store ?R2))"
    by (simp add: model_defs promise_defs str_of_def truthy_def demo_store_def foo_record_def)
  have f2: "uploadPackage ?env2 (foo_record\<lparr>download_sha512 := Some ''c0ffee''\<rparr>) ''/tmp/u1.click'' None
        = Inl (Rejection ''smartfile'')"
    by simp
  from upload_before_save [of ?R1 "post_apps demo_env [] ?R1" demo_env "[]"] e1
  have p1: "\<exists>q fn ic.
         Upload q fn ic \<in> set
           [Rename ''/tmp/u1'' ''/tmp/u1.click'', Review ''/tmp/u1.click'', Parse ''/tmp/u1.click'',
            Checksum ''/tmp/u1.click'', FindOne ''foo'', UpdateInfo,
            Upload \<lparr>pkg_id = Some ''foo'', maintainer = None, download_sha512 = Some ''c0ffee'', info = []\<rparr>
              ''/tmp/u1.click'' None]
         \<and> uploadPackage demo_env q fn ic =
             Inr \<lparr>pkg_id = Some ''foo'', maintainer = None, download_sha512 = Some ''c0ffee'', info = []\<rparr>"
    by (simp only: demo_request_simps) blast
  from upload_before_save [of ?R2 "put_apps ?env2 demo_store ?R2" ?env2 demo_store] e2 f2
  have p2: "(\<forall>ev \<in> set (events (put_apps ?env2 demo_store ?R2)). \<not> is_save ev)
          \<and> store (put_apps ?env2 demo_store ?R2) = demo_store"
    by (simp only: demo_request_simps) blast
  from e1 p1 e2 p2 show ?thesis by blast
qed

subsection \<open>Rejections of a submission\<close>

lemma checkPackage_resolves:
  "\<not> bad_extension f \<Longrightarrow> renameAsync env (path f) (fileName f) = Inr () \<Longrightarrow>
   isAdminOrTrustedUser env req \<or> reviewPackage env (fileName f) = Inr False \<Longrightarrow>
   snd (checkPackage env req f) = Inr ()"
  by (auto simp: checkPackage_def promise_defs)

text \<open>
  C1: a create submission that passes \<open>checkPackage\<close>, whose manifest is well formed and
  whose manifest name is the \<open>id\<close> of a record the registry returns, makes neither an
  upload nor a save and leaves the registry store unchanged; it is answered with
  'A package with the same name already exists' and status 400, unless the checksum fails
  and its rejection reaches \<open>Promise.all\<close> first.
\<close>

theorem create_duplicate_rejected:
  assumes "req_file req = Some f" and "\<not> bad_extension f"
    and "snd (checkPackage env (default_maintainer req) f) = Inr ()"
    and "parse env (fileName f) = Inr parseData" and "\<not> malformed parseData"
    and "findOne env st (str_of (name parseData)) = Inr (Some existing)"
  shows "(\<not> (isl (checksum env (fileName f)) \<and> checksum_first env) \<longrightarrow>
            response (post_apps env st req) = Error DUPLICATE_PACKAGE (Some 400))
       \<and> store (post_apps env st req) = st
       \<and> (\<forall>e \<in> set (events (post_apps env st req)). \<not> is_upload e \<and> \<not> is_save e)"
proof (cases "checkPackage env (default_maintainer req) f")
  case (Pair es r)
  with assms(3) have r: "r = Inr ()" by simp
  have "quiet (fst (checkPackage env (default_maintainer req) f))"
    by (rule quiet_checkPackage)
  with Pair have "quiet es" by simp
  with assms Pair r show ?thesis
    by (auto simp: post_apps_def post_all_def existingPromise_def settle_def post_catch_def
          promise_defs quiet_def split: sum.splits)
qed

theorem create_duplicate_rejected_witness:
  "response (post_apps demo_env demo_store (demo_request (Some click_file) ''bob'' []))
     = Error DUPLICATE_PACKAGE (Some 400)
   \<and> store (post_apps demo_env demo_store (demo_request (Some click_file) ''bob'' [])) = demo_store
   \<and> \<not> (\<exists>e \<in> set (events (post_apps demo_env demo_store (demo_request (Some click_file) ''bob'' []))).
         is_upload e \<or> is_save e)"
proof -
  have "(\<not> (isl (checksum demo_env (fileName click_file)) \<and> checksum_first demo_env) \<longrightarrow>
          response (post_apps demo_env demo_store (demo_request (Some click_file) ''bob'' []))
            = Error DUPLICATE_PACKAGE (Some 400))
   \<and> store (post_apps demo_env demo_store (demo_request (Some click_file) ''bob'' [])) = demo_store
   \<and> (\<forall>e \<in> set (events (post_apps demo_env demo_store (demo_request (Some click_file) ''bob'' []))).
         \<not> is_upload e \<and> \<not> is_save e)"
    by (rule create_duplicate_rejected [where f = click_file and parseData = foo_manifest
          and existing = foo_record])
       (simp_all add: checkPackage_resolves str_of_def demo_store_def)
  then show ?thesis by simp
qed

text \<open>
  C4: when the uploader is neither an administrator nor trusted and the review tool answers that
  the package needs manual review, a create submission, and an update submission by an
  authorised principal, is answered with 'This app needs to be reviewed manually' and status
  400. The handler has renamed the temporary file and asked for the review, and nothing else:
  the file is not deleted, nothing is parsed, uploaded or saved, and the store is unchanged.
\<close>

theorem manual_review_rejected:
  assumes "req_file req = Some f" and "\<not> bad_extension f"
    and "renameAsync env (path f) (fileName f) = Inr ()"
    and "reviewPackage env (fileName f) = Inr True"
  shows "(\<not> isAdminOrTrustedUser env (default_maintainer req) \<longrightarrow>
            post_apps env st req =
              \<lparr>events = [Rename (path f) (fileName f), Review (fileName f)],
               response = Error NEEDS_MANUAL_REVIEW (Some 400), store = st\<rparr>)
       \<and> (\<not> isAdminOrTrustedUser env req \<and> findOne env st (params_id req) = Inr pkgo
            \<and> authorised env req pkgo = Inr True \<longrightarrow>
            put_apps env st req =
              \<lparr>events = [FindOne (params_id req), Rename (path f) (fileName f), Review (fileName f)],
               response = Error NEEDS_MANUAL_REVIEW (Some 400), store = st\<rparr>)"
  using assms
  by (simp add: post_apps_def put_apps_def put_body_def checkPackage_def settle_def
        post_catch_def put_catch_def promise_defs)

theorem manual_review_rejected_witness:
  "post_apps (demo_env\<lparr>reviewPackage := \<lambda>_. Inr True\<rparr>) [] (demo_request (Some click_file) ''bob'' []) =
     \<lparr>events = [Rename ''/tmp/u1'' ''/tmp/u1.click'', Review ''/tmp/u1.click''],
      response = Error NEEDS_MANUAL_REVIEW (Some 400), store = []\<rparr>
   \<and> put_apps (demo_env\<lparr>reviewPackage := \<lambda>_. Inr True\<rparr>) demo_store
        (demo_request (Some click_file) ''alice'' ''foo'') =
     \<lparr>events = [FindOne ''foo'', Rename ''/tmp/u1'' ''/tmp/u1.click'', Review ''/tmp/u1.click''],
      response = Error NEEDS_MANUAL_REVIEW (Some 400), store = demo_store\<rparr>"
  using manual_review_rejected [where req = "demo_request (Some click_file) ''bob'' []"
          and f = click_file and env = "demo_env\<lparr>reviewPackage := \<lambda>_. Inr True\<rparr>"
          and st = "[]" and pkgo = None]
        manual_review_rejected [where req = "demo_request (Some click_file) ''alice'' ''foo''"
          and f = click_file and env = "demo_env\<lparr>reviewPackage := \<lambda>_. Inr True\<rparr>"
          and st = demo_store and pkgo = "Some foo_record"]
  by (simp add: authorised_def demo_store_def foo_record_def)

text \<open>
  C6: an update by an authorised principal of an existing record, with a file that passes
  \<open>checkPackage\<close> and whose well-formed manifest names another package than the record's
  \<open>id\<close>, is answered with 'The uploaded package does not match the name of the package you
  are editing' and status 400; the trace holds neither an upload nor a save, and the registry
  store is unchanged.
\<close>

theorem update_wrong_package:
  assumes "findOne env st (params_id req) = Inr (Some pkg)"
    and "authorised env req (Some pkg) = Inr True"
    and "req_file req = Some f"
    and "snd (checkPackage env req f) = Inr ()"
    and "parse env (fileName f) = Inr parseData" and "checksum env (fileName f) = Inr d"
    and "\<not> malformed parseData"
    and "truthy (pkg_id pkg)" and "name parseData \<noteq> pkg_id pkg"
  shows "response (put_apps env st req) = Error WRONG_PACKAGE (Some 400)
       \<and> store (put_apps env st req) = st
       \<and> (\<forall>e \<in> set (events (put_apps env st req)). \<not> is_upload e \<and> \<not> is_save e)"
  using assms
  apply (cases "checkPackage env req f")
  apply (simp add: put_apps_def put_body_def put_all_def updateAndUpload_def settle_def put_catch_def promise_defs)
  apply (auto simp: checkPackage_def promise_defs then_p_def split: if_splits sum.splits)
  done

theorem update_wrong_package_witness:
  "response (put_apps (demo_env\<lparr>parse := \<lambda>_. Inr (foo_manifest\<lparr>name := Some ''bar''\<rparr>)\<rparr>) demo_store
       (demo_request (Some click_file) ''alice'' ''foo'')) = Error WRONG_PACKAGE (Some 400)
   \<and> store (put_apps (demo_env\<lparr>parse := \<lambda>_. Inr (foo_manifest\<lparr>name := Some ''bar''\<rparr>)\<rparr>) demo_store
       (demo_request (Some click_file) ''alice'' ''foo'')) = demo_store
   \<and> \<not> (\<exists>e \<in> set (events (put_apps (demo_env\<lparr>parse := \<lambda>_. Inr (foo_manifest\<lparr>name := Some ''bar''\<rparr>)\<rparr>)
       demo_store (demo_request (Some click_file) ''alice'' ''foo''))). is_upload e \<or> is_save e)"
proof -
  have "response (put_apps (demo_env\<lparr>parse := \<lambda>_. Inr (foo_manifest\<lparr>name := Some ''bar''\<rparr>)\<rparr>) demo_store
       (demo_request (Some click_file) ''alice'' ''foo'')) = Error WRONG_PACKAGE (Some 400)
   \<and> store (put_apps (demo_env\<lparr>parse := \<lambda>_. Inr (foo_manifest\<lparr>name := Some ''bar''\<rparr>)\<rparr>) demo_store
       (demo_request (Some click_file) ''alice'' ''foo'')) = demo_store
   \<and> (\<forall>e \<in> set (events (put_apps (demo_env\<lparr>parse := \<lambda>_. Inr (foo_manifest\<lparr>name := Some ''bar''\<rparr>)\<rparr>)
       demo_store (demo_request (Some click_file) ''alice'' ''foo''))). \<not> is_upload e \<and> \<not> is_save e)"
    by (rule update_wrong_package [where pkg = foo_record and f = click_file
          and parseData = "foo_manifest\<lparr>name := Some ''bar''\<rparr>" and d = "''c0ffee''"])
       (simp_all add: checkPackage_resolves authorised_def demo_store_def foo_record_def truthy_def
          malformed_def foo_manifest_def)
  then show ?thesis by blast
qed

text \<open>
  C7: an update of an existing record by a principal who is neither an administrator nor the
  record's maintainer is answered with 'You do not have permission to update this app' and
  status 400; the registry lookup is the only call the handler makes, so the file, attached
  or not, is neither checked, renamed, reviewed, parsed, summed, uploaded nor saved.
\<close>

theorem update_denied:
  assumes "findOne env st (params_id req) = Inr (Some pkg)"
    and "\<not> isAdminUser env req" and "maintainer pkg \<noteq> Some (user_id req)"
  shows "put_apps env st req =
           \<lparr>events = [FindOne (params_id req)],
            response = Error PERMISSION_DENIED (Some 400), store = st\<rparr>"
  using assms
  by (simp add: put_apps_def put_body_def authorised_def settle_def put_catch_def promise_defs)

theorem update_denied_witness:
  "put_apps demo_env demo_store (demo_request (Some click_file) ''bob'' ''foo'') =
     \<lparr>events = [FindOne ''foo''], response = Error PERMISSION_DENIED (Some 400), store = demo_store\<rparr>"
  using update_denied [where env = demo_env and st = demo_store
          and req = "demo_request (Some click_file) ''bob'' ''foo''" and pkg = foo_record]
  by (simp add: demo_store_def) (simp add: foo_record_def)

subsection \<open>Deletion of the temporary file\<close>

lemma set_then_p:
  "set (fst (then_p p f)) =
     set (fst p) \<union> (case snd p of Inl _ \<Rightarrow> {} | Inr x \<Rightarrow> set (fst (f x)))"
  by (cases p) (auto simp: then_p_def split: sum.splits)

lemma unlink_checkPackage:
  "Unlink p \<in> set (fst (checkPackage env req f)) \<longleftrightarrow> bad_extension f \<and> p = path f"
  by (auto simp: checkPackage_def promise_defs set_then_p split: sum.splits if_splits)

lemma unlink_post_all: "Unlink p \<notin> set (fst (post_all env st req f))"
  by (auto simp: post_all_def existingPromise_def promise_defs set_then_p Let_def
        split: sum.splits option.splits if_splits)

lemma unlink_put_all: "Unlink p \<notin> set (fst (put_all env pkgo req f))"
  by (simp add: put_all_def)

lemma unlink_updateAndUpload: "Unlink p \<notin> set (fst (updateAndUpload env r))"
  by (cases r) (auto simp: updateAndUpload_def promise_defs set_then_p Let_def
        split: sum.splits option.splits if_splits)

lemma unlink_pipeline:
  "Unlink p \<in> set (fst (then_p (then_p pre (updateAndUpload env))
                           (\<lambda>pkg. call (Save pkg) (save env st pkg))))
     \<longleftrightarrow> Unlink p \<in> set (fst pre)"
  by (auto simp: set_then_p call_def unlink_updateAndUpload split: sum.splits)

lemma unlink_settle:
  assumes "\<And>es e. Unlink p \<in> set (events (catch st es e)) \<longleftrightarrow> Unlink p \<in> set es"
  shows "Unlink p \<in> set (events (settle catch st P)) \<longleftrightarrow> Unlink p \<in> set (fst P)"
  using assms by (cases P) (auto simp: settle_def split: sum.splits)

lemma unlink_post_catch:
  "Unlink p \<in> set (events (post_catch st es e)) \<longleftrightarrow> Unlink p \<in> set es"
  by (simp add: post_catch_def)

lemma unlink_put_catch:
  "Unlink p \<in> set (events (put_catch st es e)) \<longleftrightarrow> Unlink p \<in> set es"
  by (simp add: put_catch_def)

lemma unlink_post_stage:
  "Unlink p \<in> set (fst (then_p (checkPackage env req f) (\<lambda>_. post_all env st req f)))
     \<longleftrightarrow> bad_extension f \<and> p = path f"
  by (auto simp: set_then_p unlink_checkPackage unlink_post_all split: sum.splits)

lemma unlink_put_stage:
  "Unlink p \<in> set (fst (then_p (checkPackage env req f) (\<lambda>_. put_all env pkgo req f)))
     \<longleftrightarrow> bad_extension f \<and> p = path f"
  by (auto simp: set_then_p unlink_checkPackage unlink_put_all split: sum.splits)

lemma unlink_put_body:
  "Unlink p \<in> set (fst (put_body env st req pkgo)) \<longleftrightarrow>
     (\<exists>f. req_file req = Some f \<and> bad_extension f \<and> p = path f
        \<and> authorised env req pkgo = Inr True)"
proof (cases "authorised env req pkgo")
  case (Inl e)
  then show ?thesis by (simp add: put_body_def reject_def)
next
  case (Inr ok)
  show ?thesis
  proof (cases ok)
    case False
    with Inr show ?thesis by (simp add: put_body_def reject_def)
  next
    case True
    show ?thesis
    proof (cases "req_file req")
      case None
      with Inr True show ?thesis
        by (simp add: put_body_def set_then_p call_def split: option.splits sum.splits)
    next
      case (Some f)
      with Inr True show ?thesis
        by (simp add: put_body_def unlink_pipeline unlink_put_stage)
    qed
  qed
qed

text \<open>
  Where the handlers call \<open>fs.unlink\<close>: the create handler exactly when a file with a bad
  extension is attached, the update handler exactly when, in addition, the registry lookup
  resolved and the principal is authorised.
\<close>

lemma unlink_only_for_bad_file:
  "(Unlink p \<in> set (events (post_apps env st req)) \<longleftrightarrow>
      (\<exists>f. req_file req = Some f \<and> bad_extension f \<and> p = path f))
 \<and> (Unlink p \<in> set (events (put_apps env st req)) \<longleftrightarrow>
      (\<exists>f pkgo. req_file req = Some f \<and> bad_extension f \<and> p = path f
         \<and> findOne env st (params_id req) = Inr pkgo \<and> authorised env req pkgo = Inr True))"
proof
  show "Unlink p \<in> set (events (post_apps env st req)) \<longleftrightarrow>
      (\<exists>f. req_file req = Some f \<and> bad_extension f \<and> p = path f)"
    by (cases "req_file req")
       (simp_all add: post_apps_def unlink_settle [where catch = post_catch, OF unlink_post_catch]
          unlink_pipeline unlink_post_stage)
next
  have "Unlink p \<in> set (events (put_apps env st req)) \<longleftrightarrow>
          Unlink p \<in> set (fst (then_p (call (FindOne (params_id req)) (findOne env st (params_id req)))
                                  (put_body env st req)))"
    unfolding put_apps_def
    by (rule unlink_settle [where catch = put_catch, OF unlink_put_catch])
  also have "\<dots> \<longleftrightarrow> (\<exists>pkgo. findOne env st (params_id req) = Inr pkgo
                        \<and> Unlink p \<in> set (fst (put_body env st req pkgo)))"
    by (auto simp: set_then_p call_def split: sum.splits)
  finally show "Unlink p \<in> set (events (put_apps env st req)) \<longleftrightarrow>
      (\<exists>f pkgo. req_file req = Some f \<and> bad_extension f \<and> p = path f
         \<and> findOne env st (params_id req) = Inr pkgo \<and> authorised env req pkgo = Inr True)"
    by (auto simp: unlink_put_body)
qed

text \<open>
  C8: the handlers delete a rejected upload in their bad-extension branches (lines 277 and
  330) and nowhere else. An update by \<open>bob\<close>, who is neither the administrator nor the
  maintainer of \<open>foo\<close>, is rejected for lack of permission after the registry lookup alone,
  and the file he attached is not deleted, whatever its extension; the same \<open>foo.zip\<close> is
  deleted when the maintainer sends it. A create whose manifest lacks its version fails the
  parse stage with the malformed-manifest message, and its file is not deleted either.
\<close>

theorem unauthorised_update_keeps_file:
  "put_apps demo_env demo_store (demo_request (Some click_file) ''bob'' ''foo'') =
     \<lparr>events = [FindOne ''foo''], response = Error PERMISSION_DENIED (Some 400),
      store = demo_store\<rparr>
   \<and> put_apps demo_env demo_store (demo_request (Some zip_file) ''bob'' ''foo'') =
     \<lparr>events = [FindOne ''foo''], response = Error PERMISSION_DENIED (Some 400),
      store = demo_store\<rparr>
   \<and> put_apps demo_env demo_store (demo_request (Some zip_file) ''alice'' ''foo'') =
     \<lparr>events = [FindOne ''foo'', Unlink ''/tmp/u2''], response = Error BAD_FILE (Some 400),
      store = demo_store\<rparr>
   \<and> post_apps (demo_env\<lparr>parse := \<lambda>_. Inr (foo_manifest\<lparr>version := None\<rparr>)\<rparr>) demo_store
        (demo_request (Some click_file) ''bob'' []) =
     \<lparr>events = [Rename ''/tmp/u1'' ''/tmp/u1.click'', Review ''/tmp/u1.click'',
                Parse ''/tmp/u1.click'', Checksum ''/tmp/u1.click''],
      response = Error MALFORMED_MANIFEST (Some 400), store = demo_store\<rparr>"
  by (simp add: model_defs promise_defs demo_store_def foo_record_def foo_manifest_def
        malformed_def truthy_def)

subsection \<open>The handlers at two inputs\<close>

text \<open>
  C5: the create handler answers a file with a bad extension through
  \<open>helpers.error(res, BAD_FILE)\<close>, without a status code, as it answers an unexpected
  failure; the update handler answers the same file with status 400. Both delete the
  temporary file.
\<close>

theorem post_bad_file_without_status:
  "post_apps demo_env demo_store (demo_request (Some zip_file) ''bob'' []) =
     \<lparr>events = [Unlink ''/tmp/u2''], response = Error BAD_FILE None, store = demo_store\<rparr>
   \<and> response (post_apps (demo_env\<lparr>parse := \<lambda>_. Inl (Rejection ''unreadable'')\<rparr>) demo_store
        (demo_request (Some click_file) ''bob'' [])) =
     Error ''There was an error creating your app, please try again later'' None
   \<and> put_apps demo_env demo_store (demo_request (Some zip_file) ''alice'' ''foo'') =
     \<lparr>events = [FindOne ''foo'', Unlink ''/tmp/u2''], response = Error BAD_FILE (Some 400),
      store = demo_store\<rparr>"
  by (simp add: model_defs promise_defs demo_store_def foo_record_def)

text \<open>
  C9: an update by the administrator of an id the registry does not hold, with a file
  attached. The \<open>||\<close> of the permission test does not look at the missing record, so the
  file is processed: a package file is renamed, parsed and summed before
  \<open>updateAndUpload\<close> fails on the missing record, and a file with a bad extension is
  deleted and answered with the bad-file message and status 400.
\<close>

theorem put_missing_record_as_admin:
  "put_apps demo_env demo_store (demo_request (Some click_file) ''root'' ''nope'') =
     \<lparr>events = [FindOne ''nope'', Rename ''/tmp/u1'' ''/tmp/u1.click'', Parse ''/tmp/u1.click'',
                Checksum ''/tmp/u1.click'', LogError ''Error updating package:''],
      response = Error ''There was an error updating your app, please try again later'' None,
      store = demo_store\<rparr>
   \<and> put_apps demo_env demo_store (demo_request (Some zip_file) ''root'' ''nope'') =
     \<lparr>events = [FindOne ''nope'', Unlink ''/tmp/u2''], response = Error BAD_FILE (Some 400),
      store = demo_store\<rparr>"
  by (simp add: model_defs promise_defs demo_store_def foo_record_def message_defs)

text \<open>
  C3: two create requests for the same new package \<open>foo\<close>, the second looking the name up
  before the first has saved. On a registry without a uniqueness constraint both are
  answered with success and the store holds two records of \<open>id\<close> \<open>foo\<close>. On a registry
  with the constraint the first succeeds; the second has found no record either, so it
  uploads its artifact, its save is refused by the store, and it is answered with the generic
  failure, not with the duplicate-package message.
\<close>

theorem concurrent_creates_race:
  "concurrent_creates insert_env []
      (demo_request (Some click_file) ''bob'' []) (demo_request (Some click_file_b) ''carol'' []) =
     (\<lparr>events = [Rename ''/tmp/u1'' ''/tmp/u1.click'', Review ''/tmp/u1.click'',
                 Parse ''/tmp/u1.click'', Checksum ''/tmp/u1.click'', FindOne ''foo'', UpdateInfo,
                 Upload \<lparr>pkg_id = Some ''foo'', maintainer = None,
                         download_sha512 = Some ''c0ffee'', info = []\<rparr> ''/tmp/u1.click'' None,
                 Save \<lparr>pkg_id = Some ''foo'', maintainer = None,
                       download_sha512 = Some ''c0ffee'', info = []\<rparr>],
       response = Success \<lparr>pkg_id = Some ''foo'', maintainer = None,
                            download_sha512 = Some ''c0ffee'', info = []\<rparr>,
       store = [(''foo'', \<lparr>pkg_id = Some ''foo'', maintainer = None,
                            download_sha512 = Some ''c0ffee'', info = []\<rparr>)]\<rparr>,
      \<lparr>events = [Rename ''/tmp/u3'' ''/tmp/u3.click'', Review ''/tmp/u3.click'',
                 Parse ''/tmp/u3.click'', Checksum ''/tmp/u3.click'', FindOne ''foo'', UpdateInfo,
                 Upload \<lparr>pkg_id = Some ''foo'', maintainer = None,
                         download_sha512 = Some ''c0ffee'', info = []\<rparr> ''/tmp/u3.click'' None,
                 Save \<lparr>pkg_id = Some ''foo'', maintainer = None,
                       download_sha512 = Some ''c0ffee'', info = []\<rparr>],
       response = Success \<lparr>pkg_id = Some ''foo'', maintainer = None,
                            download_sha512 = Some ''c0ffee'', info = []\<rparr>,
       store = [(''foo'', \<lparr>pkg_id = Some ''foo'', maintainer = None,
                            download_sha512 = Some ''c0ffee'', info = []\<rparr>),
                (''foo'', \<lparr>pkg_id = Some ''foo'', maintainer = None,
                            download_sha512 = Some ''c0ffee'', info = []\<rparr>)]\<rparr>)
   \<and> response (fst (concurrent_creates unique_env []
        (demo_request (Some click_file) ''bob'' []) (demo_request (Some click_file_b) ''carol'' [])))
     = Success \<lparr>pkg_id = Some ''foo'', maintainer = None,
                 download_sha512 = Some ''c0ffee'', info = []\<rparr>
   \<and> snd (concurrent_creates unique_env []
        (demo_request (Some click_file) ''bob'' []) (demo_request (Some click_file_b) ''carol'' [])) =
      \<lparr>events = [Rename ''/tmp/u3'' ''/tmp/u3.click'', Review ''/tmp/u3.click'',
                 Parse ''/tmp/u3.click'', Checksum ''/tmp/u3.click'', FindOne ''foo'', UpdateInfo,
                 Upload \<lparr>pkg_id = Some ''foo'', maintainer = None,
                         download_sha512 = Some ''c0ffee'', info = []\<rparr> ''/tmp/u3.click'' None,
                 Save \<lparr>pkg_id = Some ''foo'', maintainer = None,
                       download_sha512 = Some ''c0ffee'', info = []\<rparr>,
                 LogError ''Error parsing new package:''],
       response = Error ''There was an error creating your app, please try again later'' None,
       store = [(''foo'', \<lparr>pkg_id = Some ''foo'', maintainer = None,
                            download_sha512 = Some ''c0ffee'', info = []\<rparr>)]\<rparr>"
  by (simp add: concurrent_creates_def lookup_before_def insert_env_def unique_env_def
        model_defs promise_defs str_of_def truthy_def)

end
